theory Spec2Isabelle
  imports Complex_Main "HOL-Library.AList"
begin

section \<open>JavaScript numbers\<close>

text \<open>
  A JavaScript number is an IEEE double. The model keeps the four kinds of value the
  code can tell apart: a finite value, the two infinities and NaN. Finite values are
  exact reals: rounding, overflow to an infinity and the sign of zero are not modelled.
  A comparison with NaN is false, whichever way it is written.
\<close>

datatype number = Num real | PosInf | NegInf | NaN

text \<open>\<^verbatim>\<open>a * b\<close>\<close>

fun mul_num :: "number \<Rightarrow> number \<Rightarrow> number" where
  "mul_num NaN b = NaN"
| "mul_num a NaN = NaN"
| "mul_num (Num x) (Num y) = Num (x * y)"
| "mul_num (Num x) PosInf = (if x = 0 then NaN else if 0 < x then PosInf else NegInf)"
| "mul_num (Num x) NegInf = (if x = 0 then NaN else if 0 < x then NegInf else PosInf)"
| "mul_num PosInf (Num y) = (if y = 0 then NaN else if 0 < y then PosInf else NegInf)"
| "mul_num NegInf (Num y) = (if y = 0 then NaN else if 0 < y then NegInf else PosInf)"
| "mul_num PosInf PosInf = PosInf"
| "mul_num PosInf NegInf = NegInf"
| "mul_num NegInf PosInf = NegInf"
| "mul_num NegInf NegInf = PosInf"

text \<open>\<^verbatim>\<open>a--\<close>: the value stored back.\<close>

fun dec_num :: "number \<Rightarrow> number" where
  "dec_num (Num x) = Num (x - 1)"
| "dec_num PosInf = PosInf"
| "dec_num NegInf = NegInf"
| "dec_num NaN = NaN"

text \<open>\<^verbatim>\<open>a < b\<close>\<close>

fun lt_num :: "number \<Rightarrow> number \<Rightarrow> bool" where
  "lt_num NaN b = False"
| "lt_num a NaN = False"
| "lt_num (Num x) (Num y) = (x < y)"
| "lt_num (Num x) PosInf = True"
| "lt_num (Num x) NegInf = False"
| "lt_num PosInf b = False"
| "lt_num NegInf NegInf = False"
| "lt_num NegInf b = True"

text \<open>\<^verbatim>\<open>a <= b\<close>\<close>

fun le_num :: "number \<Rightarrow> number \<Rightarrow> bool" where
  "le_num NaN b = False"
| "le_num a NaN = False"
| "le_num (Num x) (Num y) = (x \<le> y)"
| "le_num (Num x) PosInf = True"
| "le_num (Num x) NegInf = False"
| "le_num PosInf PosInf = True"
| "le_num PosInf b = False"
| "le_num NegInf b = True"

text \<open>\<^verbatim>\<open>a > b\<close>\<close>

definition gt_num :: "number \<Rightarrow> number \<Rightarrow> bool" where
  "gt_num a b = lt_num b a"

section \<open>The session controller: \<^verbatim>\<open>FocusTimer\<close> (timer.js)\<close>

text \<open>\<^verbatim>\<open>DEFAULT_FOCUS_TIME = 25 * 60\<close>, \<^verbatim>\<open>DEFAULT_BREAK_TIME = 5 * 60\<close>\<close>

definition DEFAULT_FOCUS_TIME :: number where
  "DEFAULT_FOCUS_TIME = Num (25 * 60)"

definition DEFAULT_BREAK_TIME :: number where
  "DEFAULT_BREAK_TIME = Num (5 * 60)"

datatype TimerState = STOPPED | RUNNING | PAUSED

text \<open>
  What the three callback slots receive: \<^verbatim>\<open>onTick(timeLeft, totalTime, mode)\<close>,
  \<^verbatim>\<open>onModeChange(newMode, oldMode)\<close>, \<^verbatim>\<open>onComplete(mode)\<close>.
\<close>

datatype notification =
    OnTick number number string
  | OnModeChange string string
  | OnComplete string

text \<open>The calls of \<^verbatim>\<open>console.warn\<close> and \<^verbatim>\<open>console.error\<close>, by call site.\<close>

datatype console_msg =
    WarnAlreadyRunning
  | WarnNotRunning
  | WarnNotPaused
  | ErrorInvalidMode string

text \<open>
  The fields of the object, followed by the part of the host the object acts on:
  \<open>timers\<close> are the interval handles the host holds active (each one calls
  \<^verbatim>\<open>_tick\<close> when it fires), \<open>nextId\<close> is the handle the next \<^verbatim>\<open>setInterval\<close>
  returns, \<open>notified\<close> is what the callbacks have received so far and \<open>console\<close>
  the warnings and errors written. A callback slot is a flag: whether a function is
  registered. The callbacks are observers: they do not call back into the timer.
  The mode is a string, since \<^verbatim>\<open>reset\<close> stores whatever mode it is given.
\<close>

record FocusTimer =
  state :: TimerState
  mode :: string
  timeLeft :: number
  totalTime :: number
  focusDuration :: number
  breakDuration :: number
  intervalId :: "nat option"
  onTick :: bool
  onModeChange :: bool
  onComplete :: bool
  timers :: "nat list"
  nextId :: nat
  notified :: "notification list"
  console :: "console_msg list"

text \<open>\<^verbatim>\<open>constructor()\<close>, in a host whose next interval handle is \<open>h\<close>.\<close>

definition new_FocusTimer :: "nat \<Rightarrow> FocusTimer" where
  "new_FocusTimer h =
     \<lparr> state = STOPPED, mode = ''focus'',
       timeLeft = DEFAULT_FOCUS_TIME, totalTime = DEFAULT_FOCUS_TIME,
       focusDuration = DEFAULT_FOCUS_TIME, breakDuration = DEFAULT_BREAK_TIME,
       intervalId = None,
       onTick = False, onModeChange = False, onComplete = False,
       timers = [], nextId = h, notified = [], console = [] \<rparr>"

text \<open>\<^verbatim>\<open>setInterval(() => this._tick(), 1000)\<close>: a fresh handle, now active.\<close>

definition setInterval :: "FocusTimer \<Rightarrow> nat \<times> FocusTimer" where
  "setInterval t = (nextId t, t\<lparr>timers := timers t @ [nextId t], nextId := Suc (nextId t)\<rparr>)"

text \<open>\<^verbatim>\<open>clearInterval(id)\<close>: \<^verbatim>\<open>null\<close> cancels nothing.\<close>

definition clearInterval :: "nat option \<Rightarrow> FocusTimer \<Rightarrow> FocusTimer" where
  "clearInterval h t =
     (case h of None \<Rightarrow> t | Some i \<Rightarrow> t\<lparr>timers := removeAll i (timers t)\<rparr>)"

text \<open>\<^verbatim>\<open>if (this.onX) { this.onX(...) }\<close>\<close>

definition emit :: "bool \<Rightarrow> notification \<Rightarrow> FocusTimer \<Rightarrow> FocusTimer" where
  "emit cb n t = (if cb then t\<lparr>notified := notified t @ [n]\<rparr> else t)"

text \<open>\<^verbatim>\<open>_resetTime()\<close>\<close>

definition resetTime :: "FocusTimer \<Rightarrow> FocusTimer" where
  "resetTime t =
     (if mode t = ''focus''
      then t\<lparr>timeLeft := focusDuration t, totalTime := focusDuration t\<rparr>
      else t\<lparr>timeLeft := breakDuration t, totalTime := breakDuration t\<rparr>)"

text \<open>\<^verbatim>\<open>_complete()\<close>\<close>

definition complete :: "FocusTimer \<Rightarrow> FocusTimer" where
  "complete t =
     (let t1 = clearInterval (intervalId t) t;
          t2 = t1\<lparr>intervalId := None\<rparr>;
          t3 = t2\<lparr>state := STOPPED\<rparr>
      in emit (onComplete t3) (OnComplete (mode t3)) t3)"

text \<open>\<^verbatim>\<open>_tick()\<close>\<close>

definition tick :: "FocusTimer \<Rightarrow> FocusTimer" where
  "tick t =
     (let t1 = t\<lparr>timeLeft := dec_num (timeLeft t)\<rparr>;
          t2 = emit (onTick t1) (OnTick (timeLeft t1) (totalTime t1) (mode t1)) t1
      in if le_num (timeLeft t2) (Num 0) then complete t2 else t2)"

text \<open>\<^verbatim>\<open>start()\<close>\<close>

definition start :: "FocusTimer \<Rightarrow> FocusTimer" where
  "start t =
     (if state t = RUNNING then t\<lparr>console := console t @ [WarnAlreadyRunning]\<rparr>
      else
        let t1 = t\<lparr>state := RUNNING\<rparr>;
            (h, t2) = setInterval t1;
            t3 = t2\<lparr>intervalId := Some h\<rparr>
        in tick t3)"

text \<open>\<^verbatim>\<open>pause()\<close>\<close>

definition pause :: "FocusTimer \<Rightarrow> FocusTimer" where
  "pause t =
     (if state t \<noteq> RUNNING then t\<lparr>console := console t @ [WarnNotRunning]\<rparr>
      else
        let t1 = t\<lparr>state := PAUSED\<rparr>;
            t2 = clearInterval (intervalId t1) t1
        in t2\<lparr>intervalId := None\<rparr>)"

text \<open>\<^verbatim>\<open>resume()\<close>\<close>

definition resume :: "FocusTimer \<Rightarrow> FocusTimer" where
  "resume t =
     (if state t \<noteq> PAUSED then t\<lparr>console := console t @ [WarnNotPaused]\<rparr>
      else start t)"

text \<open>
  \<^verbatim>\<open>reset(mode = null)\<close>. The two tests are tests of truthiness: a handle is
  cancelled when it is not 0, and the mode is replaced when the argument is a
  non-empty string. The argument is not checked against the two modes.
\<close>

definition reset :: "string option \<Rightarrow> FocusTimer \<Rightarrow> FocusTimer" where
  "reset m t =
     (let t1 = (case intervalId t of
                  None \<Rightarrow> t
                | Some i \<Rightarrow> if i \<noteq> 0
                            then (clearInterval (Some i) t)\<lparr>intervalId := None\<rparr>
                            else t);
          t2 = t1\<lparr>state := STOPPED\<rparr>;
          t3 = (case m of
                  None \<Rightarrow> t2
                | Some s \<Rightarrow> if s \<noteq> [] then t2\<lparr>mode := s\<rparr> else t2);
          t4 = resetTime t3
      in emit (onTick t4) (OnTick (timeLeft t4) (totalTime t4) (mode t4)) t4)"

text \<open>\<^verbatim>\<open>setMode(newMode)\<close>\<close>

definition setMode :: "string \<Rightarrow> FocusTimer \<Rightarrow> FocusTimer" where
  "setMode newMode t =
     (if newMode \<noteq> ''focus'' \<and> newMode \<noteq> ''break''
      then t\<lparr>console := console t @ [ErrorInvalidMode newMode]\<rparr>
      else
        let t1 = (if state t = RUNNING then pause t else t);
            oldMode = mode t1;
            t2 = t1\<lparr>mode := newMode\<rparr>;
            t3 = resetTime t2;
            t4 = emit (onModeChange t3) (OnModeChange newMode oldMode) t3
        in emit (onTick t4) (OnTick (timeLeft t4) (totalTime t4) (mode t4)) t4)"

text \<open>\<^verbatim>\<open>setFocusDuration(minutes)\<close>\<close>

definition setFocusDuration :: "number \<Rightarrow> FocusTimer \<Rightarrow> FocusTimer" where
  "setFocusDuration minutes t =
     (let seconds = mul_num minutes (Num 60);
          t1 = t\<lparr>focusDuration := seconds\<rparr>
      in if mode t1 = ''focus'' \<and> state t1 = STOPPED
         then let t2 = t1\<lparr>timeLeft := seconds, totalTime := seconds\<rparr>
              in emit (onTick t2) (OnTick (timeLeft t2) (totalTime t2) (mode t2)) t2
         else t1)"

text \<open>\<^verbatim>\<open>setBreakDuration(minutes)\<close>\<close>

definition setBreakDuration :: "number \<Rightarrow> FocusTimer \<Rightarrow> FocusTimer" where
  "setBreakDuration minutes t =
     (let seconds = mul_num minutes (Num 60);
          t1 = t\<lparr>breakDuration := seconds\<rparr>
      in if mode t1 = ''break'' \<and> state t1 = STOPPED
         then let t2 = t1\<lparr>timeLeft := seconds, totalTime := seconds\<rparr>
              in emit (onTick t2) (OnTick (timeLeft t2) (totalTime t2) (mode t2)) t2
         else t1)"

text \<open>\<^verbatim>\<open>destroy()\<close>: the handle is cancelled; the status is left as it is.\<close>

definition destroy :: "FocusTimer \<Rightarrow> FocusTimer" where
  "destroy t =
     (case intervalId t of
        None \<Rightarrow> t
      | Some i \<Rightarrow> if i \<noteq> 0
                  then (clearInterval (Some i) t)\<lparr>intervalId := None\<rparr>
                  else t)"

text \<open>
  The host fires interval \<open>h\<close>: its callback runs \<^verbatim>\<open>_tick\<close> if the handle is
  still active, and nothing happens once it has been cancelled.
\<close>

definition fire :: "nat \<Rightarrow> FocusTimer \<Rightarrow> FocusTimer" where
  "fire h t = (if h \<in> set (timers t) then tick t else t)"

text \<open>
  The operations on a timer in use: the public methods, the assignment of a callback
  slot, and the passing of time (an interval firing). \<^verbatim>\<open>destroy()\<close> is not one of
  them: it ends the life of the object, which the application then drops.
\<close>

datatype timer_op =
    Start
  | Pause
  | Resume
  | Reset "string option"
  | SetMode string
  | SetFocusDuration number
  | SetBreakDuration number
  | Fire nat
  | SetOnTick bool
  | SetOnModeChange bool
  | SetOnComplete bool

fun exec :: "timer_op \<Rightarrow> FocusTimer \<Rightarrow> FocusTimer" where
  "exec Start t = start t"
| "exec Pause t = pause t"
| "exec Resume t = resume t"
| "exec (Reset m) t = reset m t"
| "exec (SetMode m) t = setMode m t"
| "exec (SetFocusDuration n) t = setFocusDuration n t"
| "exec (SetBreakDuration n) t = setBreakDuration n t"
| "exec (Fire h) t = fire h t"
| "exec (SetOnTick b) t = t\<lparr>onTick := b\<rparr>"
| "exec (SetOnModeChange b) t = t\<lparr>onModeChange := b\<rparr>"
| "exec (SetOnComplete b) t = t\<lparr>onComplete := b\<rparr>"

text \<open>A sequence of operations, first to last.\<close>

definition run :: "timer_op list \<Rightarrow> FocusTimer \<Rightarrow> FocusTimer" where
  "run ops t = foldl (\<lambda>s a. exec a s) t ops"

text \<open>\<open>admits ok a\<close>: the duration the operation passes to the timer, if any, satisfies \<open>ok\<close>.\<close>

fun admits :: "(number \<Rightarrow> bool) \<Rightarrow> timer_op \<Rightarrow> bool" where
  "admits ok (SetFocusDuration n) = ok n"
| "admits ok (SetBreakDuration n) = ok n"
| "admits ok a = True"

text \<open>
  The states reachable from a freshly constructed timer, in a host that hands out
  positive interval handles, by operations whose duration arguments satisfy \<open>ok\<close>.
\<close>

inductive reachable :: "(number \<Rightarrow> bool) \<Rightarrow> FocusTimer \<Rightarrow> bool" for ok where
  fresh: "0 < h \<Longrightarrow> reachable ok (new_FocusTimer h)"
| step: "reachable ok t \<Longrightarrow> admits ok a \<Longrightarrow> reachable ok (exec a t)"

section \<open>JavaScript values, as far as the preference store meets them\<close>

text \<open>
  What \<^verbatim>\<open>JSON.parse\<close> can return, and \<^verbatim>\<open>undefined\<close>. An object is the list of
  its own properties, in insertion order; an array has its elements and, apart from
  them, the named properties assigned to it.
\<close>

datatype jsval =
    JUndefined
  | JNull
  | JBool bool
  | JNumber number
  | JString string
  | JObject "(string \<times> jsval) list"
  | JArray "jsval list" "(string \<times> jsval) list"

datatype js_error = TypeError

text \<open>
  \<^verbatim>\<open>v.k\<close>, for a name \<open>k\<close> that no prototype defines and that is not an index or
  \<^verbatim>\<open>length\<close> (the three names of the statistics are such names): reading a
  property of \<^verbatim>\<open>null\<close> or \<^verbatim>\<open>undefined\<close> throws, a missing property reads as
  \<^verbatim>\<open>undefined\<close>.
\<close>

fun get_prop :: "jsval \<Rightarrow> string \<Rightarrow> js_error + jsval" where
  "get_prop JUndefined k = Inl TypeError"
| "get_prop JNull k = Inl TypeError"
| "get_prop (JObject ps) k = Inr (case map_of ps k of None \<Rightarrow> JUndefined | Some v \<Rightarrow> v)"
| "get_prop (JArray es ps) k = Inr (case map_of ps k of None \<Rightarrow> JUndefined | Some v \<Rightarrow> v)"
| "get_prop v k = Inr JUndefined"

text \<open>
  \<^verbatim>\<open>v.k = x\<close> in strict mode (a class body is strict): the assignment throws
  unless \<open>v\<close> is an object.
\<close>

fun set_prop :: "jsval \<Rightarrow> string \<Rightarrow> jsval \<Rightarrow> js_error + jsval" where
  "set_prop (JObject ps) k x = Inr (JObject (AList.update k x ps))"
| "set_prop (JArray es ps) k x = Inr (JArray es (AList.update k x ps))"
| "set_prop v k x = Inl TypeError"

text \<open>\<^verbatim>\<open>a + b\<close> on numbers\<close>

fun add_num :: "number \<Rightarrow> number \<Rightarrow> number" where
  "add_num NaN b = NaN"
| "add_num a NaN = NaN"
| "add_num (Num x) (Num y) = Num (x + y)"
| "add_num (Num x) b = b"
| "add_num a (Num y) = a"
| "add_num PosInf PosInf = PosInf"
| "add_num NegInf NegInf = NegInf"
| "add_num PosInf NegInf = NaN"
| "add_num NegInf PosInf = NaN"

text \<open>
  \<^verbatim>\<open>parseInt(s)\<close> with no radix: leading white space is skipped, then a sign, then
  \<^verbatim>\<open>0x\<close> or \<^verbatim>\<open>0X\<close> selects radix 16, then the longest run of digits of the radix
  is read; no digit at all gives NaN. A string is a list of bytes here, so the white
  space is the ASCII white space.
\<close>

definition is_white_space :: "char \<Rightarrow> bool" where
  "is_white_space c = (of_char c \<in> {9, 10, 11, 12, 13, 32 :: nat})"

definition digit_value :: "char \<Rightarrow> nat" where
  "digit_value c =
     (let n = of_char c :: nat
      in if 48 \<le> n \<and> n \<le> 57 then n - 48
         else if 97 \<le> n \<and> n \<le> 122 then n - 87
         else if 65 \<le> n \<and> n \<le> 90 then n - 55
         else 36)"

definition parseInt :: "string \<Rightarrow> number" where
  "parseInt inputString =
     (let s = dropWhile is_white_space inputString;
          negative = (s \<noteq> [] \<and> hd s = CHR ''-'');
          s1 = (if s \<noteq> [] \<and> (hd s = CHR ''+'' \<or> hd s = CHR ''-'') then tl s else s);
          hex = (take 2 s1 = ''0x'' \<or> take 2 s1 = ''0X'');
          s2 = (if hex then drop 2 s1 else s1);
          r = (if hex then 16 else 10);
          z = takeWhile (\<lambda>c. digit_value c < r) s2;
          mathInt = foldl (\<lambda>a c. a * r + digit_value c) 0 z
      in if z = [] then NaN
         else Num (if negative then - real mathInt else real mathInt))"

section \<open>The preference store: \<^verbatim>\<open>SettingsManager\<close>\<close>

text \<open>
  What the store takes from its host besides \<^verbatim>\<open>localStorage\<close>: the date of the day
  (\<^verbatim>\<open>new Date().toDateString()\<close>), \<^verbatim>\<open>JSON.parse\<close> (\<open>None\<close> when it throws),
  \<^verbatim>\<open>JSON.stringify\<close>, the string \<^verbatim>\<open>setItem\<close> stores for a number, and the two
  conversions behind \<^verbatim>\<open>x++\<close> and \<^verbatim>\<open>x += n\<close> on a value of any type.
\<close>

record platform =
  today :: string
  JSON_parse :: "string \<Rightarrow> jsval option"
  JSON_stringify :: "jsval \<Rightarrow> string"
  String_of :: "number \<Rightarrow> string"
  ToNumber :: "jsval \<Rightarrow> number"
  js_plus :: "jsval \<Rightarrow> number \<Rightarrow> jsval"

text \<open>\<^verbatim>\<open>STORAGE_KEYS\<close>\<close>

abbreviation FOCUS_DURATION :: string where "FOCUS_DURATION \<equiv> ''focusDuration''"
abbreviation BREAK_DURATION :: string where "BREAK_DURATION \<equiv> ''breakDuration''"
abbreviation SOUND_ENABLED :: string where "SOUND_ENABLED \<equiv> ''soundEnabled''"
abbreviation THEME :: string where "THEME \<equiv> ''theme''"
abbreviation STATS :: string where "STATS \<equiv> ''focusStats''"

text \<open>\<^verbatim>\<open>this.settings\<close>\<close>

record Settings =
  settings_focusDuration :: number
  settings_breakDuration :: number
  settings_soundEnabled :: bool
  settings_theme :: string
  settings_stats :: jsval

text \<open>
  \<^verbatim>\<open>this.defaults\<close>. The settings start as a shallow copy of it and so share its
  \<^verbatim>\<open>stats\<close> object; the model reads \<open>defaults\<close> only where that object still has
  its initial value (in the constructor and in \<^verbatim>\<open>_loadSettings\<close>, which runs once,
  before anything is written to the statistics).
\<close>

definition defaults :: Settings where
  "defaults =
     \<lparr> settings_focusDuration = Num 25,
       settings_breakDuration = Num 5,
       settings_soundEnabled = True,
       settings_theme = ''dark'',
       settings_stats =
         JObject [(''sessionsToday'', JNumber (Num 0)),
                  (''totalFocusTime'', JNumber (Num 0)),
                  (''lastResetDate'', JNull)] \<rparr>"

text \<open>\<^verbatim>\<open>onSettingsChange(key, newValue, oldValue)\<close>\<close>

datatype change = Change string jsval jsval

text \<open>The calls of \<^verbatim>\<open>console.error\<close>, by call site.\<close>

datatype store_msg =
    ErrorLoading
  | ErrorInvalidFocus number
  | ErrorInvalidBreak number
  | ErrorInvalidTheme string

text \<open>
  The object and the part of the host it acts on: the storage (reads and writes of
  the storage itself are taken not to throw), what the callback has received, and
  the errors written to the console.
\<close>

record SettingsManager =
  settings :: Settings
  onSettingsChange :: bool
  localStorage :: "string \<rightharpoonup> string"
  received :: "change list"
  reported :: "store_msg list"

text \<open>\<^verbatim>\<open>_loadSettings()\<close>: only \<^verbatim>\<open>JSON.parse\<close> can throw inside the \<^verbatim>\<open>try\<close>.\<close>

definition loadSettings :: "platform \<Rightarrow> SettingsManager \<Rightarrow> SettingsManager" where
  "loadSettings env sm =
     (let focusDuration = localStorage sm FOCUS_DURATION;
          breakDuration = localStorage sm BREAK_DURATION;
          soundEnabled = localStorage sm SOUND_ENABLED;
          theme = localStorage sm THEME;
          stats = localStorage sm STATS;
          s0 = settings sm;
          s1 = (case focusDuration of None \<Rightarrow> s0
                | Some v \<Rightarrow> s0\<lparr>settings_focusDuration := parseInt v\<rparr>);
          s2 = (case breakDuration of None \<Rightarrow> s1
                | Some v \<Rightarrow> s1\<lparr>settings_breakDuration := parseInt v\<rparr>);
          s3 = (case soundEnabled of None \<Rightarrow> s2
                | Some v \<Rightarrow> s2\<lparr>settings_soundEnabled := (v = ''true'')\<rparr>);
          s4 = (case theme of None \<Rightarrow> s3
                | Some v \<Rightarrow> s3\<lparr>settings_theme := v\<rparr>)
      in case stats of
           None \<Rightarrow> sm\<lparr>settings := s4\<rparr>
         | Some v \<Rightarrow>
             (case JSON_parse env v of
                Some j \<Rightarrow> sm\<lparr>settings := s4\<lparr>settings_stats := j\<rparr>\<rparr>
              | None \<Rightarrow> sm\<lparr>settings := defaults, reported := reported sm @ [ErrorLoading]\<rparr>))"

text \<open>\<^verbatim>\<open>_saveSettings()\<close>\<close>

definition saveSettings :: "platform \<Rightarrow> SettingsManager \<Rightarrow> SettingsManager" where
  "saveSettings env sm =
     (let s = settings sm
      in sm\<lparr>localStorage := (localStorage sm)
            (FOCUS_DURATION \<mapsto> String_of env (settings_focusDuration s),
             BREAK_DURATION \<mapsto> String_of env (settings_breakDuration s),
             SOUND_ENABLED \<mapsto> (if settings_soundEnabled s then ''true'' else ''false''),
             THEME \<mapsto> settings_theme s,
             STATS \<mapsto> JSON_stringify env (settings_stats s))\<rparr>)"

text \<open>An assignment to a property of \<^verbatim>\<open>this.settings.stats\<close>.\<close>

definition set_stat :: "string \<Rightarrow> jsval \<Rightarrow> SettingsManager \<Rightarrow> js_error + SettingsManager" where
  "set_stat k x sm =
     (case set_prop (settings_stats (settings sm)) k x of
        Inl e \<Rightarrow> Inl e
      | Inr st \<Rightarrow> Inr (sm\<lparr>settings := (settings sm)\<lparr>settings_stats := st\<rparr>\<rparr>))"

text \<open>\<^verbatim>\<open>_checkStatsReset()\<close>\<close>

definition checkStatsReset :: "platform \<Rightarrow> SettingsManager \<Rightarrow> js_error + SettingsManager" where
  "checkStatsReset env sm =
     (case get_prop (settings_stats (settings sm)) ''lastResetDate'' of
        Inl e \<Rightarrow> Inl e
      | Inr lastResetDate \<Rightarrow>
          if lastResetDate \<noteq> JString (today env)
          then (case set_stat ''sessionsToday'' (JNumber (Num 0)) sm of
                  Inl e \<Rightarrow> Inl e
                | Inr sm1 \<Rightarrow>
                    (case set_stat ''totalFocusTime'' (JNumber (Num 0)) sm1 of
                       Inl e \<Rightarrow> Inl e
                     | Inr sm2 \<Rightarrow>
                         (case set_stat ''lastResetDate'' (JString (today env)) sm2 of
                            Inl e \<Rightarrow> Inl e
                          | Inr sm3 \<Rightarrow> Inr (saveSettings env sm3))))
          else Inr sm)"

text \<open>
  \<^verbatim>\<open>constructor()\<close> with \<^verbatim>\<open>_init()\<close>, over the storage the host holds: the load.
\<close>

definition new_SettingsManager ::
  "platform \<Rightarrow> (string \<rightharpoonup> string) \<Rightarrow> js_error + SettingsManager" where
  "new_SettingsManager env storage =
     checkStatsReset env
       (loadSettings env
          \<lparr> settings = defaults, onSettingsChange = False, localStorage = storage,
            received = [], reported = [] \<rparr>)"

text \<open>\<^verbatim>\<open>_notifyChange(key, newValue, oldValue)\<close>\<close>

definition notifyChange ::
  "string \<Rightarrow> jsval \<Rightarrow> jsval \<Rightarrow> SettingsManager \<Rightarrow> SettingsManager" where
  "notifyChange key newValue oldValue sm =
     (if onSettingsChange sm
      then sm\<lparr>received := received sm @ [Change key newValue oldValue]\<rparr>
      else sm)"

text \<open>\<^verbatim>\<open>SettingsManager.setFocusDuration(minutes)\<close>\<close>

definition store_setFocusDuration ::
  "platform \<Rightarrow> number \<Rightarrow> SettingsManager \<Rightarrow> bool \<times> SettingsManager" where
  "store_setFocusDuration env minutes sm =
     (if lt_num minutes (Num 1) \<or> gt_num minutes (Num 120)
      then (False, sm\<lparr>reported := reported sm @ [ErrorInvalidFocus minutes]\<rparr>)
      else
        let oldValue = settings_focusDuration (settings sm);
            sm1 = sm\<lparr>settings := (settings sm)\<lparr>settings_focusDuration := minutes\<rparr>\<rparr>;
            sm2 = saveSettings env sm1;
            sm3 = notifyChange ''focusDuration'' (JNumber minutes) (JNumber oldValue) sm2
        in (True, sm3))"

text \<open>\<^verbatim>\<open>SettingsManager.setBreakDuration(minutes)\<close>\<close>

definition store_setBreakDuration ::
  "platform \<Rightarrow> number \<Rightarrow> SettingsManager \<Rightarrow> bool \<times> SettingsManager" where
  "store_setBreakDuration env minutes sm =
     (if lt_num minutes (Num 1) \<or> gt_num minutes (Num 30)
      then (False, sm\<lparr>reported := reported sm @ [ErrorInvalidBreak minutes]\<rparr>)
      else
        let oldValue = settings_breakDuration (settings sm);
            sm1 = sm\<lparr>settings := (settings sm)\<lparr>settings_breakDuration := minutes\<rparr>\<rparr>;
            sm2 = saveSettings env sm1;
            sm3 = notifyChange ''breakDuration'' (JNumber minutes) (JNumber oldValue) sm2
        in (True, sm3))"

text \<open>\<^verbatim>\<open>setSoundEnabled(enabled)\<close>\<close>

definition setSoundEnabled ::
  "platform \<Rightarrow> bool \<Rightarrow> SettingsManager \<Rightarrow> bool \<times> SettingsManager" where
  "setSoundEnabled env enabled sm =
     (let oldValue = settings_soundEnabled (settings sm);
          sm1 = sm\<lparr>settings := (settings sm)\<lparr>settings_soundEnabled := enabled\<rparr>\<rparr>;
          sm2 = saveSettings env sm1;
          sm3 = notifyChange ''soundEnabled'' (JBool enabled) (JBool oldValue) sm2
      in (True, sm3))"

text \<open>\<^verbatim>\<open>setTheme(theme)\<close>\<close>

definition setTheme ::
  "platform \<Rightarrow> string \<Rightarrow> SettingsManager \<Rightarrow> bool \<times> SettingsManager" where
  "setTheme env theme sm =
     (if theme \<noteq> ''dark'' \<and> theme \<noteq> ''light''
      then (False, sm\<lparr>reported := reported sm @ [ErrorInvalidTheme theme]\<rparr>)
      else
        let oldValue = settings_theme (settings sm);
            sm1 = sm\<lparr>settings := (settings sm)\<lparr>settings_theme := theme\<rparr>\<rparr>;
            sm2 = saveSettings env sm1;
            sm3 = notifyChange ''theme'' (JString theme) (JString oldValue) sm2
        in (True, sm3))"

text \<open>\<^verbatim>\<open>incrementSessions()\<close>: \<^verbatim>\<open>this.settings.stats.sessionsToday++\<close>, then the save.\<close>

definition incrementSessions :: "platform \<Rightarrow> SettingsManager \<Rightarrow> js_error + SettingsManager" where
  "incrementSessions env sm =
     (case get_prop (settings_stats (settings sm)) ''sessionsToday'' of
        Inl e \<Rightarrow> Inl e
      | Inr old \<Rightarrow>
          (case set_stat ''sessionsToday'' (JNumber (add_num (ToNumber env old) (Num 1))) sm of
             Inl e \<Rightarrow> Inl e
           | Inr sm1 \<Rightarrow> Inr (saveSettings env sm1)))"

text \<open>\<^verbatim>\<open>addFocusTime(minutes)\<close>: \<^verbatim>\<open>this.settings.stats.totalFocusTime += minutes\<close>, then the save.\<close>

definition addFocusTime ::
  "platform \<Rightarrow> number \<Rightarrow> SettingsManager \<Rightarrow> js_error + SettingsManager" where
  "addFocusTime env minutes sm =
     (case get_prop (settings_stats (settings sm)) ''totalFocusTime'' of
        Inl e \<Rightarrow> Inl e
      | Inr old \<Rightarrow>
          (case set_stat ''totalFocusTime'' (js_plus env old minutes) sm of
             Inl e \<Rightarrow> Inl e
           | Inr sm1 \<Rightarrow> Inr (saveSettings env sm1)))"




section \<open>Predicates used in the statements\<close>

text \<open>States reachable whatever numbers the duration setters are given.\<close>

definition unrestricted :: "number \<Rightarrow> bool" where
  "unrestricted n = True"

text \<open>The duration setters are given numbers greater than zero only.\<close>

definition positive :: "number \<Rightarrow> bool" where
  "positive n = lt_num (Num 0) n"

text \<open>What a callback slot receives from one notification: nothing when it is empty.\<close>

definition delivered :: "bool \<Rightarrow> notification \<Rightarrow> notification list" where
  "delivered cb n = (if cb then [n] else [])"

text \<open>
  The invariant of section 3 of the specification, as it is written there:
  \<open>0 \<le> remainingSeconds \<le> totalSeconds\<close> and \<open>0 < totalSeconds\<close>.
\<close>

definition spec_invariant :: "FocusTimer \<Rightarrow> bool" where
  "spec_invariant t =
     (le_num (Num 0) (timeLeft t) \<and> le_num (timeLeft t) (totalTime t) \<and>
      lt_num (Num 0) (totalTime t))"

text \<open>
  The handle and the host agree: the host holds exactly the interval the object
  remembers, and the object remembers one exactly when it is running.
\<close>

definition handle_inv :: "FocusTimer \<Rightarrow> bool" where
  "handle_inv t =
     (0 < nextId t \<and>
      (case intervalId t of
         None \<Rightarrow> timers t = [] \<and> state t \<noteq> RUNNING
       | Some h \<Rightarrow> timers t = [h] \<and> state t = RUNNING \<and> 0 < h \<and> h < nextId t))"

text \<open>What positive durations keep true of the countdown.\<close>

definition duration_inv :: "FocusTimer \<Rightarrow> bool" where
  "duration_inv t =
     (lt_num (Num 0) (focusDuration t) \<and> lt_num (Num 0) (breakDuration t) \<and>
      lt_num (Num 0) (totalTime t) \<and> le_num (timeLeft t) (totalTime t) \<and>
      (state t \<noteq> STOPPED \<longrightarrow> lt_num (Num 0) (timeLeft t)))"

text \<open>The statistics of a day on which nothing has been counted yet.\<close>

definition today_stats :: "string \<Rightarrow> jsval" where
  "today_stats day =
     JObject [(''sessionsToday'', JNumber (Num 0)),
              (''totalFocusTime'', JNumber (Num 0)),
              (''lastResetDate'', JString day)]"

text \<open>The settings a load ends with; none when the constructor throws.\<close>

definition loaded_settings :: "js_error + SettingsManager \<Rightarrow> Settings option" where
  "loaded_settings r = (case r of Inl e \<Rightarrow> None | Inr sm \<Rightarrow> Some (settings sm))"

text \<open>Two settings agree on everything but the statistics.\<close>

definition same_prefs :: "Settings \<Rightarrow> Settings \<Rightarrow> bool" where
  "same_prefs a b =
     (settings_focusDuration a = settings_focusDuration b \<and>
      settings_breakDuration a = settings_breakDuration b \<and>
      settings_soundEnabled a = settings_soundEnabled b \<and>
      settings_theme a = settings_theme b)"

text \<open>
  A host for the examples, on 2 November 2026. Its \<^verbatim>\<open>JSON.parse\<close> knows the two
  texts the examples store and throws on every other string; its other functions are
  defined on the values the examples meet.
\<close>

definition example_host :: platform where
  \<open>example_host =
     \<lparr> today = ''Mon Nov 02 2026'',
       JSON_parse = (\<lambda>s.
         if s = ''{"sessionsToday":3,"totalFocusTime":75,"lastResetDate":"Sun Nov 01 2026"}''
         then Some (JObject [(''sessionsToday'', JNumber (Num 3)),
                             (''totalFocusTime'', JNumber (Num 75)),
                             (''lastResetDate'', JString ''Sun Nov 01 2026'')])
         else if s = ''{"sessionsToday":0,"totalFocusTime":0,"lastResetDate":"Mon Nov 02 2026"}''
         then Some (today_stats ''Mon Nov 02 2026'')
         else None),
       JSON_stringify = (\<lambda>v.
         if v = today_stats ''Mon Nov 02 2026''
         then ''{"sessionsToday":0,"totalFocusTime":0,"lastResetDate":"Mon Nov 02 2026"}''
         else ''null''),
       String_of = (\<lambda>n. if n = Num 25 then ''25'' else if n = Num 5 then ''5'' else ''NaN''),
       ToNumber = (\<lambda>v. case v of JNumber n \<Rightarrow> n | _ \<Rightarrow> NaN),
       js_plus = (\<lambda>v n. case v of JNumber m \<Rightarrow> JNumber (add_num m n) | _ \<Rightarrow> JNumber NaN) \<rparr>\<close>

section \<open>Properties of the session controller\<close>

lemmas timer_defs = start_def pause_def resume_def reset_def setMode_def
  setFocusDuration_def setBreakDuration_def tick_def complete_def emit_def resetTime_def
  clearInterval_def setInterval_def fire_def delivered_def

lemmas timer_consts = new_FocusTimer_def DEFAULT_FOCUS_TIME_def DEFAULT_BREAK_TIME_def

subsection \<open>Reachable states\<close>

lemma reachable_run:
  "reachable ok t \<Longrightarrow> list_all (admits ok) ops \<Longrightarrow> reachable ok (run ops t)"
  unfolding run_def
  by (induction ops arbitrary: t) (auto intro: reachable.step)

lemma reachable_fresh_run:
  "0 < h \<Longrightarrow> list_all (admits ok) ops \<Longrightarrow> reachable ok (run ops (new_FocusTimer h))"
  by (simp add: reachable_run reachable.fresh)

lemma handle_inv_exec: "handle_inv t \<Longrightarrow> handle_inv (exec a t)"
  by (cases a)
     (auto simp: handle_inv_def timer_defs Let_def split: option.splits if_splits)

lemma reachable_handle_inv: "reachable ok t \<Longrightarrow> handle_inv t"
proof (induction rule: reachable.induct)
  case (fresh h)
  then show ?case by (simp add: handle_inv_def new_FocusTimer_def)
next
  case (step t a)
  then show ?case by (simp add: handle_inv_exec)
qed

lemma idle_host: "timers s = [] \<Longrightarrow> run (map Fire hs) s = s"
  by (induction hs) (simp_all add: run_def fire_def)

lemma stopped_no_handle:
  "reachable ok t \<Longrightarrow> state t \<noteq> RUNNING \<Longrightarrow> intervalId t = None \<and> timers t = []"
  by (drule reachable_handle_inv) (auto simp: handle_inv_def split: option.splits)

lemma running_one_handle:
  "reachable ok t \<Longrightarrow> state t = RUNNING \<Longrightarrow> \<exists>h. intervalId t = Some h \<and> timers t = [h]"
  by (drule reachable_handle_inv) (auto simp: handle_inv_def split: option.splits)

subsection \<open>Arithmetic of the countdown\<close>

lemma le_num_dec: "le_num a b \<Longrightarrow> le_num (dec_num a) b"
  by (cases a; cases b) auto

lemma dec_num_pos:
  "le_num a b \<Longrightarrow> \<not> le_num (dec_num a) (Num 0) \<Longrightarrow> lt_num (Num 0) (dec_num a)"
  by (cases a; cases b) auto

lemma le_num_refl: "lt_num (Num 0) a \<Longrightarrow> le_num a a"
  by (cases a) auto

lemma mul_60_pos: "positive m \<Longrightarrow> lt_num (Num 0) (mul_num m (Num 60))"
  by (cases m) (auto simp: positive_def)

lemma duration_inv_tick: "duration_inv t \<Longrightarrow> state t = RUNNING \<Longrightarrow> duration_inv (tick t)"
  by (auto simp: duration_inv_def timer_defs Let_def le_num_dec dec_num_pos
           split: option.splits)

lemma duration_inv_start: "duration_inv t \<Longrightarrow> duration_inv (start t)"
  by (auto simp: duration_inv_def timer_defs Let_def le_num_dec dec_num_pos
           split: option.splits)

lemma duration_inv_exec:
  assumes "duration_inv t" and "handle_inv t" and "admits positive a"
  shows "duration_inv (exec a t)"
proof (cases a)
  case Start
  with assms show ?thesis by (simp add: duration_inv_start)
next
  case Resume
  show ?thesis
  proof (cases "state t = PAUSED")
    case True
    with assms Resume show ?thesis by (simp add: resume_def duration_inv_start)
  next
    case False
    with assms Resume show ?thesis by (simp add: resume_def duration_inv_def)
  qed
next
  case (Fire h)
  with assms show ?thesis
    by (auto simp: fire_def handle_inv_def intro!: duration_inv_tick split: option.splits)
qed (use assms in \<open>auto simp: duration_inv_def timer_defs Let_def le_num_refl mul_60_pos
                         split: option.splits\<close>)

lemma reachable_duration_inv: "reachable positive t \<Longrightarrow> duration_inv t"
proof (induction rule: reachable.induct)
  case (fresh h)
  then show ?case by (simp add: duration_inv_def timer_consts)
next
  case (step t a)
  then show ?case by (simp add: duration_inv_exec reachable_handle_inv)
qed

subsection \<open>Switching the mode\<close>

text \<open>
  Claim C1. When the timer is running, in either mode, \<^verbatim>\<open>setMode\<close> with the other
  valid mode first pauses (status paused, handle cancelled and forgotten), then
  switches the mode, sets \<open>timeLeft\<close> and \<open>totalTime\<close> to the configured duration of
  the new mode, and notifies the mode change and then a tick, each to its callback
  slot; the status at the end is paused, not stopped. In a reachable state the pause
  is a real one: the host holds no interval of the timer afterwards, the whole state
  at the end is the state at the start with exactly these changes, and nothing the
  host fires later changes it. For an argument that is neither \<^verbatim>\<open>focus\<close> nor
  \<^verbatim>\<open>break\<close> it writes an error to the console and changes nothing of the timer.
\<close>

theorem setMode_while_running:
  "(state t = RUNNING \<and> (mode t = ''focus'' \<or> mode t = ''break'') \<and>
    (newMode = ''focus'' \<or> newMode = ''break'') \<and> newMode \<noteq> mode t \<longrightarrow>
      (let d = (if newMode = ''focus'' then focusDuration t else breakDuration t) in
         state (pause t) = PAUSED \<and> intervalId (pause t) = None \<and>
         setMode newMode t =
           (pause t)\<lparr>mode := newMode, timeLeft := d, totalTime := d,
                     notified := notified t
                       @ delivered (onModeChange t) (OnModeChange newMode (mode t))
                       @ delivered (onTick t) (OnTick d d newMode)\<rparr> \<and>
         state (setMode newMode t) = PAUSED))
   \<and> (reachable unrestricted t \<and> state t = RUNNING \<and>
        (mode t = ''focus'' \<or> mode t = ''break'') \<and>
        (newMode = ''focus'' \<or> newMode = ''break'') \<and> newMode \<noteq> mode t \<longrightarrow>
      (let d = (if newMode = ''focus'' then focusDuration t else breakDuration t) in
         timers (pause t) = [] \<and>
         setMode newMode t =
           t\<lparr>state := PAUSED, intervalId := None, timers := [],
             mode := newMode, timeLeft := d, totalTime := d,
             notified := notified t
               @ delivered (onModeChange t) (OnModeChange newMode (mode t))
               @ delivered (onTick t) (OnTick d d newMode)\<rparr> \<and>
         (\<forall>hs. run (map Fire hs) (setMode newMode t) = setMode newMode t)))
   \<and> (other \<noteq> ''focus'' \<and> other \<noteq> ''break'' \<longrightarrow>
        setMode other t = t\<lparr>console := console t @ [ErrorInvalidMode other]\<rparr>)"
proof -
  have a: "state t = RUNNING \<and> (mode t = ''focus'' \<or> mode t = ''break'') \<and>
    (newMode = ''focus'' \<or> newMode = ''break'') \<and> newMode \<noteq> mode t \<longrightarrow>
      (let d = (if newMode = ''focus'' then focusDuration t else breakDuration t) in
         state (pause t) = PAUSED \<and> intervalId (pause t) = None \<and>
         setMode newMode t =
           (pause t)\<lparr>mode := newMode, timeLeft := d, totalTime := d,
                     notified := notified t
                       @ delivered (onModeChange t) (OnModeChange newMode (mode t))
                       @ delivered (onTick t) (OnTick d d newMode)\<rparr> \<and>
         state (setMode newMode t) = PAUSED)"
    by (auto simp: timer_defs Let_def split: option.splits)
  have b: "let d = (if newMode = ''focus'' then focusDuration t else breakDuration t) in
         timers (pause t) = [] \<and>
         setMode newMode t =
           t\<lparr>state := PAUSED, intervalId := None, timers := [],
             mode := newMode, timeLeft := d, totalTime := d,
             notified := notified t
               @ delivered (onModeChange t) (OnModeChange newMode (mode t))
               @ delivered (onTick t) (OnTick d d newMode)\<rparr> \<and>
         (\<forall>hs. run (map Fire hs) (setMode newMode t) = setMode newMode t)"
    if r: "reachable unrestricted t" and s: "state t = RUNNING"
      and n: "newMode = ''focus'' \<or> newMode = ''break''"
  proof -
    from running_one_handle [OF r s]
    obtain h where h: "intervalId t = Some h" "timers t = [h]" by blast
    have p: "timers (pause t) = []"
      using s h by (simp add: timer_defs Let_def)
    have e: "setMode newMode t =
           t\<lparr>state := PAUSED, intervalId := None, timers := [],
             mode := newMode,
             timeLeft := (if newMode = ''focus'' then focusDuration t else breakDuration t),
             totalTime := (if newMode = ''focus'' then focusDuration t else breakDuration t),
             notified := notified t
               @ delivered (onModeChange t) (OnModeChange newMode (mode t))
               @ delivered (onTick t)
                   (OnTick (if newMode = ''focus'' then focusDuration t else breakDuration t)
                      (if newMode = ''focus'' then focusDuration t else breakDuration t)
                      newMode)\<rparr>"
      using s h n by (auto simp: timer_defs Let_def)
    have "timers (setMode newMode t) = []" by (simp add: e)
    then have "\<forall>hs. run (map Fire hs) (setMode newMode t) = setMode newMode t"
      by (simp add: idle_host)
    with p e show ?thesis by (simp add: Let_def)
  qed
  have c: "other \<noteq> ''focus'' \<and> other \<noteq> ''break'' \<longrightarrow>
        setMode other t = t\<lparr>console := console t @ [ErrorInvalidMode other]\<rparr>"
    by (simp add: setMode_def)
  show ?thesis using a b c by blast
qed

theorem setMode_while_running_witness:
  "reachable unrestricted (run [SetOnTick True, SetOnModeChange True, Start] (new_FocusTimer 1)) \<and>
   state (run [SetOnTick True, SetOnModeChange True, Start] (new_FocusTimer 1)) = RUNNING \<and>
   mode (run [SetOnTick True, SetOnModeChange True, Start] (new_FocusTimer 1)) = ''focus'' \<and>
   timers (run [SetOnTick True, SetOnModeChange True, Start] (new_FocusTimer 1)) = [1] \<and>
   state (setMode ''break'' (run [SetOnTick True, SetOnModeChange True, Start] (new_FocusTimer 1))) = PAUSED \<and>
   timeLeft (setMode ''break'' (run [SetOnTick True, SetOnModeChange True, Start] (new_FocusTimer 1))) = Num 300 \<and>
   totalTime (setMode ''break'' (run [SetOnTick True, SetOnModeChange True, Start] (new_FocusTimer 1))) = Num 300 \<and>
   intervalId (setMode ''break'' (run [SetOnTick True, SetOnModeChange True, Start] (new_FocusTimer 1))) = None \<and>
   timers (setMode ''break'' (run [SetOnTick True, SetOnModeChange True, Start] (new_FocusTimer 1))) = [] \<and>
   notified (setMode ''break'' (run [SetOnTick True, SetOnModeChange True, Start] (new_FocusTimer 1)))
      = [OnTick (Num 1499) (Num 1500) ''focus'',
         OnModeChange ''break'' ''focus'', OnTick (Num 300) (Num 300) ''break''] \<and>
   timeLeft (run (map Fire [1, 1])
     (setMode ''break'' (run [SetOnTick True, SetOnModeChange True, Start] (new_FocusTimer 1)))) = Num 300 \<and>
   console (setMode ''lunch'' (run [SetOnTick True, SetOnModeChange True, Start] (new_FocusTimer 1)))
      = [ErrorInvalidMode ''lunch'']"
proof -
  let ?t = "run [SetOnTick True, SetOnModeChange True, Start] (new_FocusTimer 1)"
  have r: "reachable unrestricted ?t"
    by (rule reachable_fresh_run) (simp_all add: unrestricted_def)
  have s: "state ?t = RUNNING" "mode ?t = ''focus''"
    by (simp_all add: run_def timer_defs timer_consts Let_def)
  have hyp: "reachable unrestricted ?t \<and> state ?t = RUNNING \<and>
        (mode ?t = ''focus'' \<or> mode ?t = ''break'') \<and>
        (''break'' = ''focus'' \<or> ''break'' = ''break'') \<and> ''break'' \<noteq> mode ?t"
    using r s(1,2) by simp
  note T = setMode_while_running [of ?t "''break''" "''lunch''"]
  note B = T [THEN conjunct2, THEN conjunct1, rule_format, OF hyp, unfolded Let_def]
  from B have g: "run (map Fire [1, 1]) (setMode ''break'' ?t) = setMode ''break'' ?t"
    by blast
  from B have p: "timers (setMode ''break'' ?t) = []"
    by (simp add: run_def timer_defs timer_consts Let_def)
  show ?thesis
    unfolding g using r p by (simp add: run_def timer_defs timer_consts Let_def)
qed

subsection \<open>The last second\<close>

text \<open>
  Claim C2. When the timer is running with one second left, the next firing of its
  interval brings \<open>timeLeft\<close> to 0, notifies the tick \<open>(0, totalTime, mode)\<close> first,
  then cancels and forgets the handle, stops, and notifies one completion with the
  mode the tick started in; whatever the host fires afterwards changes nothing, so no
  further tick or completion follows.
\<close>

theorem last_second_tick:
  assumes "reachable unrestricted t" and "state t = RUNNING" and "timeLeft t = Num 1"
  shows "\<exists>h. intervalId t = Some h \<and>
           fire h t =
             t\<lparr>timeLeft := Num 0, state := STOPPED, intervalId := None, timers := [],
               notified := notified t
                 @ delivered (onTick t) (OnTick (Num 0) (totalTime t) (mode t))
                 @ delivered (onComplete t) (OnComplete (mode t))\<rparr> \<and>
           (\<forall>hs. run (map Fire hs) (fire h t) = fire h t)"
proof -
  from running_one_handle [OF assms(1,2)]
  obtain h where h: "intervalId t = Some h" "timers t = [h]" by blast
  have f: "fire h t =
             t\<lparr>timeLeft := Num 0, state := STOPPED, intervalId := None, timers := [],
               notified := notified t
                 @ delivered (onTick t) (OnTick (Num 0) (totalTime t) (mode t))
                 @ delivered (onComplete t) (OnComplete (mode t))\<rparr>"
    using h assms(3) by (simp add: timer_defs Let_def)
  have "timers (fire h t) = []" by (simp add: f)
  then have "\<forall>hs. run (map Fire hs) (fire h t) = fire h t" by (simp add: idle_host)
  with h f show ?thesis by blast
qed

theorem last_second_tick_witness:
  "reachable unrestricted
     (run [SetOnTick True, SetOnComplete True, SetFocusDuration (Num (1/30)), Start] (new_FocusTimer 1)) \<and>
   state (run [SetOnTick True, SetOnComplete True, SetFocusDuration (Num (1/30)), Start] (new_FocusTimer 1)) = RUNNING \<and>
   timeLeft (run [SetOnTick True, SetOnComplete True, SetFocusDuration (Num (1/30)), Start] (new_FocusTimer 1)) = Num 1 \<and>
   state (fire 1 (run [SetOnTick True, SetOnComplete True, SetFocusDuration (Num (1/30)), Start] (new_FocusTimer 1))) = STOPPED \<and>
   notified (fire 1 (run [SetOnTick True, SetOnComplete True, SetFocusDuration (Num (1/30)), Start] (new_FocusTimer 1)))
     = [OnTick (Num 2) (Num 2) ''focus'', OnTick (Num 1) (Num 2) ''focus'',
        OnTick (Num 0) (Num 2) ''focus'', OnComplete ''focus'']"
proof -
  let ?t = "run [SetOnTick True, SetOnComplete True, SetFocusDuration (Num (1/30)), Start] (new_FocusTimer 1)"
  have r: "reachable unrestricted ?t"
    by (rule reachable_fresh_run) (simp_all add: unrestricted_def)
  have s: "state ?t = RUNNING" "timeLeft ?t = Num 1" "intervalId ?t = Some 1"
    by (simp_all add: run_def timer_defs timer_consts Let_def)
  from last_second_tick [OF r s(1,2)] s(3) r s(1,2) show ?thesis
    by (auto simp: run_def timer_defs timer_consts Let_def)
qed

subsection \<open>The invariant of the countdown\<close>

text \<open>
  Claim C3 as it is written fails in two ways. The timer's own setters take any
  number, so \<^verbatim>\<open>setFocusDuration(0)\<close> on a fresh timer leaves \<open>totalTime = 0\<close>. And
  with a duration of one minute: after the session has run to completion the timer is
  stopped at \<open>timeLeft = 0\<close>, and a further \<^verbatim>\<open>start()\<close> ticks at once, to \<open>-1\<close>.
\<close>

theorem spec_invariant_counterexample:
  "reachable unrestricted (run [SetFocusDuration (Num 0)] (new_FocusTimer 1)) \<and>
   totalTime (run [SetFocusDuration (Num 0)] (new_FocusTimer 1)) = Num 0 \<and>
   \<not> spec_invariant (run [SetFocusDuration (Num 0)] (new_FocusTimer 1)) \<and>
   reachable unrestricted
     (run ([SetFocusDuration (Num 1), Start] @ replicate 59 (Fire 1) @ [Start]) (new_FocusTimer 1)) \<and>
   timeLeft (run ([SetFocusDuration (Num 1), Start] @ replicate 59 (Fire 1) @ [Start]) (new_FocusTimer 1)) = Num (- 1) \<and>
   \<not> spec_invariant
     (run ([SetFocusDuration (Num 1), Start] @ replicate 59 (Fire 1) @ [Start]) (new_FocusTimer 1))"
proof -
  have r1: "reachable unrestricted (run [SetFocusDuration (Num 0)] (new_FocusTimer 1))"
    by (rule reachable_fresh_run) (simp_all add: unrestricted_def)
  have r2: "reachable unrestricted
     (run ([SetFocusDuration (Num 1), Start] @ replicate 59 (Fire 1) @ [Start]) (new_FocusTimer 1))"
    by (rule reachable_fresh_run) (simp_all add: unrestricted_def list_all_iff)
  have t2: "timeLeft (run ([SetFocusDuration (Num 1), Start] @ replicate 59 (Fire 1) @ [Start]) (new_FocusTimer 1)) = Num (- 1)"
    by (simp add: run_def timer_defs timer_consts Let_def eval_nat_numeral)
  have t1: "totalTime (run [SetFocusDuration (Num 0)] (new_FocusTimer 1)) = Num 0"
    by (simp add: run_def timer_defs timer_consts Let_def)
  show ?thesis using r1 r2 t1 t2 by (simp add: spec_invariant_def)
qed

text \<open>
  Claim C3, amended. In every state reachable from the initial state by the public
  operations and ticks, the duration setters being given numbers greater than zero,
  \<open>timeLeft \<le> totalTime\<close> and \<open>0 < totalTime\<close> hold, and \<open>0 < timeLeft\<close> holds
  whenever the timer is running or paused.
\<close>

theorem positive_durations_invariant:
  assumes "reachable positive t"
  shows "le_num (timeLeft t) (totalTime t) \<and> lt_num (Num 0) (totalTime t) \<and>
         (state t \<noteq> STOPPED \<longrightarrow> lt_num (Num 0) (timeLeft t))"
  using reachable_duration_inv [OF assms] by (simp add: duration_inv_def)

theorem positive_durations_invariant_witness:
  "reachable positive (run [SetFocusDuration (Num 2), Start, Fire 1] (new_FocusTimer 1)) \<and>
   state (run [SetFocusDuration (Num 2), Start, Fire 1] (new_FocusTimer 1)) \<noteq> STOPPED \<and>
   timeLeft (run [SetFocusDuration (Num 2), Start, Fire 1] (new_FocusTimer 1)) = Num 118 \<and>
   totalTime (run [SetFocusDuration (Num 2), Start, Fire 1] (new_FocusTimer 1)) = Num 120 \<and>
   lt_num (Num 0) (timeLeft (run [SetFocusDuration (Num 2), Start, Fire 1] (new_FocusTimer 1)))"
proof -
  let ?t = "run [SetFocusDuration (Num 2), Start, Fire 1] (new_FocusTimer 1)"
  have r: "reachable positive ?t"
    by (rule reachable_fresh_run) (simp_all add: positive_def)
  have s: "state ?t = RUNNING" "timeLeft ?t = Num 118" "totalTime ?t = Num 120"
    by (simp_all add: run_def timer_defs timer_consts Let_def)
  from positive_durations_invariant [OF r] r s show ?thesis by simp
qed

subsection \<open>The first tick\<close>

text \<open>
  Claim C6 as it is written fails in its last part: a session started with one second
  left does not wait for the interval. The completion is notified inside \<^verbatim>\<open>start()\<close>,
  right after the tick, and the firing one second later finds the interval cancelled.
\<close>

theorem first_tick_timeline_counterexample:
  "reachable unrestricted
     (run [SetOnTick True, SetOnComplete True, SetFocusDuration (Num (1/60))] (new_FocusTimer 1)) \<and>
   state (run [SetOnTick True, SetOnComplete True, SetFocusDuration (Num (1/60))] (new_FocusTimer 1)) = STOPPED \<and>
   timeLeft (run [SetOnTick True, SetOnComplete True, SetFocusDuration (Num (1/60))] (new_FocusTimer 1)) = Num 1 \<and>
   \<not> (notified (start (run [SetOnTick True, SetOnComplete True, SetFocusDuration (Num (1/60))] (new_FocusTimer 1)))
         = notified (run [SetOnTick True, SetOnComplete True, SetFocusDuration (Num (1/60))] (new_FocusTimer 1))
             @ [OnTick (Num 0) (Num 1) ''focus''] \<and>
       notified (fire 1 (start (run [SetOnTick True, SetOnComplete True, SetFocusDuration (Num (1/60))] (new_FocusTimer 1))))
         = notified (start (run [SetOnTick True, SetOnComplete True, SetFocusDuration (Num (1/60))] (new_FocusTimer 1)))
             @ [OnComplete ''focus''])"
proof -
  have "reachable unrestricted
     (run [SetOnTick True, SetOnComplete True, SetFocusDuration (Num (1/60))] (new_FocusTimer 1))"
    by (rule reachable_fresh_run) (simp_all add: unrestricted_def)
  then show ?thesis
    by (simp add: run_def timer_defs timer_consts Let_def)
qed

text \<open>
  Claim C6, amended. From stopped or paused, \<^verbatim>\<open>start()\<close> performs its first tick
  inside the call: \<open>timeLeft\<close> is decremented and the tick is notified before
  \<^verbatim>\<open>start()\<close> returns. Consequently a session started with one second left
  completes inside \<^verbatim>\<open>start()\<close> itself: the tick and the completion are both
  notified there, the timer is stopped with no handle, and no later firing of an
  interval changes anything.
\<close>

theorem start_first_tick:
  assumes "reachable unrestricted t" and "state t \<noteq> RUNNING"
  shows "timeLeft (start t) = dec_num (timeLeft t) \<and>
         notified (start t) =
           notified t
             @ delivered (onTick t) (OnTick (dec_num (timeLeft t)) (totalTime t) (mode t))
             @ (if le_num (dec_num (timeLeft t)) (Num 0)
                then delivered (onComplete t) (OnComplete (mode t)) else []) \<and>
         (timeLeft t = Num 1 \<longrightarrow>
            notified (start t) =
              notified t @ delivered (onTick t) (OnTick (Num 0) (totalTime t) (mode t))
                         @ delivered (onComplete t) (OnComplete (mode t)) \<and>
            state (start t) = STOPPED \<and> intervalId (start t) = None \<and>
            (\<forall>hs. run (map Fire hs) (start t) = start t))"
proof -
  from stopped_no_handle [OF assms] have n: "intervalId t = None" "timers t = []" by auto
  have a: "timeLeft (start t) = dec_num (timeLeft t)"
    using assms(2) by (simp add: timer_defs Let_def)
  have b: "notified (start t) =
           notified t
             @ delivered (onTick t) (OnTick (dec_num (timeLeft t)) (totalTime t) (mode t))
             @ (if le_num (dec_num (timeLeft t)) (Num 0)
                then delivered (onComplete t) (OnComplete (mode t)) else [])"
    using assms(2) by (simp add: timer_defs Let_def)
  have c: "state (start t) = STOPPED \<and> intervalId (start t) = None \<and> timers (start t) = []"
    if "timeLeft t = Num 1"
    using assms(2) n that by (simp add: timer_defs Let_def)
  show ?thesis using a b c by (auto simp: idle_host)
qed

theorem start_first_tick_witness:
  "reachable unrestricted
     (run [SetOnTick True, SetOnComplete True, SetFocusDuration (Num (1/60))] (new_FocusTimer 1)) \<and>
   state (run [SetOnTick True, SetOnComplete True, SetFocusDuration (Num (1/60))] (new_FocusTimer 1)) \<noteq> RUNNING \<and>
   timeLeft (run [SetOnTick True, SetOnComplete True, SetFocusDuration (Num (1/60))] (new_FocusTimer 1)) = Num 1 \<and>
   notified (start (run [SetOnTick True, SetOnComplete True, SetFocusDuration (Num (1/60))] (new_FocusTimer 1)))
     = [OnTick (Num 1) (Num 1) ''focus'', OnTick (Num 0) (Num 1) ''focus'', OnComplete ''focus''] \<and>
   state (start (run [SetOnTick True, SetOnComplete True, SetFocusDuration (Num (1/60))] (new_FocusTimer 1))) = STOPPED"
proof -
  let ?t = "run [SetOnTick True, SetOnComplete True, SetFocusDuration (Num (1/60))] (new_FocusTimer 1)"
  have r: "reachable unrestricted ?t"
    by (rule reachable_fresh_run) (simp_all add: unrestricted_def)
  have s: "state ?t \<noteq> RUNNING" "timeLeft ?t = Num 1" "onTick ?t" "onComplete ?t" "mode ?t = ''focus''"
     "totalTime ?t = Num 1" "notified ?t = [OnTick (Num 1) (Num 1) ''focus'']"
    by (simp_all add: run_def timer_defs timer_consts Let_def)
  from start_first_tick [OF r s(1)] r s show ?thesis
    by (simp add: delivered_def)
qed

subsection \<open>Pause and resume\<close>

text \<open>
  Claim C7 as it is written fails: \<^verbatim>\<open>resume()\<close> is \<^verbatim>\<open>start()\<close>, which ticks at
  once, so a running timer at 1499 seconds is at 1498 after \<^verbatim>\<open>pause()\<close> and
  \<^verbatim>\<open>resume()\<close>.
\<close>

theorem pause_resume_counterexample:
  "reachable unrestricted (start (new_FocusTimer 1)) \<and>
   state (start (new_FocusTimer 1)) = RUNNING \<and>
   timeLeft (start (new_FocusTimer 1)) = Num 1499 \<and>
   timeLeft (resume (pause (start (new_FocusTimer 1)))) = Num 1498"
proof -
  have "reachable unrestricted (exec Start (new_FocusTimer 1))"
    by (rule reachable.step [OF reachable.fresh]) simp_all
  then show ?thesis
    by (simp add: timer_defs timer_consts Let_def)
qed

text \<open>
  Claim C7, amended. For a running timer, \<^verbatim>\<open>pause()\<close> keeps \<open>timeLeft\<close>, and
  nothing the host fires while the timer is paused changes it; \<^verbatim>\<open>resume()\<close>
  then performs one tick at once, so the value after the round trip is the value at
  the moment of pausing less one.
\<close>

theorem pause_then_resume:
  assumes "reachable unrestricted t" and "state t = RUNNING"
  shows "timeLeft (pause t) = timeLeft t \<and> state (pause t) = PAUSED \<and>
         (\<forall>hs. run (map Fire hs) (pause t) = pause t) \<and>
         timeLeft (resume (pause t)) = dec_num (timeLeft t)"
proof -
  from running_one_handle [OF assms]
  obtain h where h: "intervalId t = Some h" "timers t = [h]" by blast
  have "timers (pause t) = []" using assms(2) h by (simp add: timer_defs Let_def)
  then have "\<forall>hs. run (map Fire hs) (pause t) = pause t" by (simp add: idle_host)
  moreover have "timeLeft (pause t) = timeLeft t \<and> state (pause t) = PAUSED \<and>
      timeLeft (resume (pause t)) = dec_num (timeLeft t)"
    using assms(2) by (simp add: timer_defs Let_def split: option.splits)
  ultimately show ?thesis by blast
qed

theorem pause_then_resume_witness:
  "reachable unrestricted (start (new_FocusTimer 1)) \<and>
   state (start (new_FocusTimer 1)) = RUNNING \<and>
   timeLeft (pause (start (new_FocusTimer 1))) = Num 1499 \<and>
   run (map Fire [1, 1, 1]) (pause (start (new_FocusTimer 1))) = pause (start (new_FocusTimer 1)) \<and>
   timeLeft (resume (pause (start (new_FocusTimer 1)))) = Num 1498"
proof -
  let ?t = "start (new_FocusTimer 1)"
  have "reachable unrestricted (exec Start (new_FocusTimer 1))"
    by (rule reachable.step [OF reachable.fresh]) simp_all
  then have r: "reachable unrestricted ?t" by simp
  have s: "state ?t = RUNNING" "timeLeft ?t = Num 1499"
    by (simp_all add: timer_defs timer_consts Let_def)
  note p = pause_then_resume [OF r s(1)]
  from p have "run (map Fire [1, 1, 1]) (pause ?t) = pause ?t" by blast
  with p r s show ?thesis by simp
qed

subsection \<open>One tick handle\<close>



subsection \<open>The timer's own duration setters\<close>

text \<open>
  Claim C10. For every number \<open>minutes\<close> (zero, negative, fractional, infinite or NaN)
  the timer's \<^verbatim>\<open>setFocusDuration\<close> stores \<open>minutes * 60\<close> as its focus duration,
  and when the timer is stopped in focus mode it also sets \<open>timeLeft\<close> and
  \<open>totalTime\<close> to that value and notifies a tick; likewise \<^verbatim>\<open>setBreakDuration\<close> in
  break mode. Nothing is validated, so a reachable state has \<open>totalTime \<le> 0\<close>.
\<close>

theorem timer_setters_unchecked:
  "focusDuration (setFocusDuration minutes t) = mul_num minutes (Num 60) \<and>
   (mode t = ''focus'' \<and> state t = STOPPED \<longrightarrow>
      timeLeft (setFocusDuration minutes t) = mul_num minutes (Num 60) \<and>
      totalTime (setFocusDuration minutes t) = mul_num minutes (Num 60) \<and>
      notified (setFocusDuration minutes t) =
        notified t @ delivered (onTick t)
          (OnTick (mul_num minutes (Num 60)) (mul_num minutes (Num 60)) ''focus'')) \<and>
   breakDuration (setBreakDuration minutes t) = mul_num minutes (Num 60) \<and>
   (mode t = ''break'' \<and> state t = STOPPED \<longrightarrow>
      timeLeft (setBreakDuration minutes t) = mul_num minutes (Num 60) \<and>
      totalTime (setBreakDuration minutes t) = mul_num minutes (Num 60) \<and>
      notified (setBreakDuration minutes t) =
        notified t @ delivered (onTick t)
          (OnTick (mul_num minutes (Num 60)) (mul_num minutes (Num 60)) ''break'')) \<and>
   reachable unrestricted (setFocusDuration (Num 0) (new_FocusTimer 1)) \<and>
   le_num (totalTime (setFocusDuration (Num 0) (new_FocusTimer 1))) (Num 0)"
proof -
  have "reachable unrestricted (exec (SetFocusDuration (Num 0)) (new_FocusTimer 1))"
    by (rule reachable.step [OF reachable.fresh]) (simp_all add: unrestricted_def)
  then show ?thesis
    by (simp add: timer_defs timer_consts Let_def)
qed

theorem timer_setters_unchecked_witness:
  "mode (new_FocusTimer 1) = ''focus'' \<and> state (new_FocusTimer 1) = STOPPED \<and>
   totalTime (setFocusDuration (Num (- 5 / 2)) (new_FocusTimer 1)) = Num (- 150) \<and>
   timeLeft (setFocusDuration NaN (new_FocusTimer 1)) = NaN \<and>
   mode (setMode ''break'' (new_FocusTimer 1)) = ''break'' \<and>
   state (setMode ''break'' (new_FocusTimer 1)) = STOPPED \<and>
   totalTime (setBreakDuration (Num 0) (setMode ''break'' (new_FocusTimer 1))) = Num 0"
  using timer_setters_unchecked [of "Num (- 5 / 2)" "new_FocusTimer 1"]
        timer_setters_unchecked [of NaN "new_FocusTimer 1"]
        timer_setters_unchecked [of "Num 0" "setMode ''break'' (new_FocusTimer 1)"]
  by (simp add: timer_defs timer_consts Let_def)

section \<open>Properties of the preference store\<close>

lemmas store_defs = new_SettingsManager_def loadSettings_def checkStatsReset_def set_stat_def
  saveSettings_def notifyChange_def store_setFocusDuration_def store_setBreakDuration_def
  setSoundEnabled_def setTheme_def incrementSessions_def addFocusTime_def loaded_settings_def

lemmas parseInt_defs = parseInt_def is_white_space_def digit_value_def

lemma example_host_simps:
  "today example_host = ''Mon Nov 02 2026''"
  "JSON_parse example_host ''{oops'' = None"
  \<open>JSON_parse example_host
      ''{"sessionsToday":3,"totalFocusTime":75,"lastResetDate":"Sun Nov 01 2026"}''
     = Some (JObject [(''sessionsToday'', JNumber (Num 3)),
                      (''totalFocusTime'', JNumber (Num 75)),
                      (''lastResetDate'', JString ''Sun Nov 01 2026'')])\<close>
  \<open>JSON_parse example_host
      ''{"sessionsToday":0,"totalFocusTime":0,"lastResetDate":"Mon Nov 02 2026"}''
     = Some (today_stats ''Mon Nov 02 2026'')\<close>
  \<open>JSON_stringify example_host (today_stats ''Mon Nov 02 2026'')
     = ''{"sessionsToday":0,"totalFocusTime":0,"lastResetDate":"Mon Nov 02 2026"}''\<close>
  by (simp_all add: example_host_def)

subsection \<open>What the statistics check keeps\<close>

lemma saveSettings_settings: "settings (saveSettings env sm) = settings sm"
  by (simp add: saveSettings_def Let_def)

lemma set_stat_fields:
  "set_stat k x sm = Inr sm' \<Longrightarrow> same_prefs (settings sm') (settings sm)"
  by (auto simp: set_stat_def same_prefs_def split: sum.splits)

lemma checkStatsReset_fields:
  assumes "checkStatsReset env sm = Inr sm'"
  shows "same_prefs (settings sm') (settings sm)"
proof (cases "get_prop (settings_stats (settings sm)) ''lastResetDate''")
  case (Inl e)
  with assms show ?thesis by (simp add: checkStatsReset_def)
next
  case (Inr d)
  show ?thesis
  proof (cases "d = JString (today env)")
    case True
    with assms Inr show ?thesis by (simp add: checkStatsReset_def same_prefs_def)
  next
    case False
    with assms Inr obtain sm1 sm2 sm3 where
      s: "set_stat ''sessionsToday'' (JNumber (Num 0)) sm = Inr sm1"
         "set_stat ''totalFocusTime'' (JNumber (Num 0)) sm1 = Inr sm2"
         "set_stat ''lastResetDate'' (JString (today env)) sm2 = Inr sm3"
         "sm' = saveSettings env sm3"
      by (auto simp: checkStatsReset_def split: sum.splits)
    from s(1-3) [THEN set_stat_fields] s(4) show ?thesis
      by (simp add: same_prefs_def saveSettings_settings)
  qed
qed

subsection \<open>Loading\<close>

text \<open>
  Claim C4 as it is written fails for a stored value that is present and does not make
  \<^verbatim>\<open>JSON.parse\<close> throw: the load does not validate it. A focus duration stored as
  \<^verbatim>\<open>abc\<close> loads as NaN, not 25, and a theme stored as \<^verbatim>\<open>blue\<close> loads as
  \<^verbatim>\<open>blue\<close>, not \<^verbatim>\<open>dark\<close>.
\<close>

theorem load_counterexample:
  "loaded_settings (new_SettingsManager example_host [FOCUS_DURATION \<mapsto> ''abc'', THEME \<mapsto> ''blue''])
     = Some \<lparr> settings_focusDuration = NaN, settings_breakDuration = Num 5,
              settings_soundEnabled = True, settings_theme = ''blue'',
              settings_stats = today_stats ''Mon Nov 02 2026'' \<rparr>"
  by (simp add: store_defs defaults_def example_host_def parseInt_defs Let_def today_stats_def)

text \<open>
  Claim C4, amended. When the stored statistics fail to parse, every setting loads as
  its default (focus 25, break 5, sound on, theme dark) with both counters zero. When
  no statistics are stored, the counters load as zero, and each other setting loads as
  its default if its key is absent; a fresh store loads exactly the defaults. A
  duration that is present loads as \<^verbatim>\<open>parseInt\<close> of the stored string (NaN when
  it is not numeric), a theme that is present loads as the stored string and the sound
  flag as whether the stored string is \<^verbatim>\<open>true\<close>, unless the statistics fail to
  parse. (After a load the date of the statistics is today's.)
\<close>

theorem load_falls_back:
  "((\<exists>v. storage STATS = Some v \<and> JSON_parse env v = None) \<longrightarrow>
      loaded_settings (new_SettingsManager env storage)
        = Some (defaults\<lparr>settings_stats := today_stats (today env)\<rparr>)) \<and>
   (storage STATS = None \<longrightarrow>
      loaded_settings (new_SettingsManager env storage)
        = Some \<lparr> settings_focusDuration =
                   (case storage FOCUS_DURATION of None \<Rightarrow> Num 25 | Some v \<Rightarrow> parseInt v),
                 settings_breakDuration =
                   (case storage BREAK_DURATION of None \<Rightarrow> Num 5 | Some v \<Rightarrow> parseInt v),
                 settings_soundEnabled =
                   (case storage SOUND_ENABLED of None \<Rightarrow> True | Some v \<Rightarrow> v = ''true''),
                 settings_theme = (case storage THEME of None \<Rightarrow> ''dark'' | Some v \<Rightarrow> v),
                 settings_stats = today_stats (today env) \<rparr>) \<and>
   (\<forall>v j s. storage STATS = Some v \<and> JSON_parse env v = Some j \<and>
            loaded_settings (new_SettingsManager env storage) = Some s \<longrightarrow>
      settings_focusDuration s =
        (case storage FOCUS_DURATION of None \<Rightarrow> Num 25 | Some v \<Rightarrow> parseInt v) \<and>
      settings_breakDuration s =
        (case storage BREAK_DURATION of None \<Rightarrow> Num 5 | Some v \<Rightarrow> parseInt v) \<and>
      settings_soundEnabled s =
        (case storage SOUND_ENABLED of None \<Rightarrow> True | Some v \<Rightarrow> v = ''true'') \<and>
      settings_theme s = (case storage THEME of None \<Rightarrow> ''dark'' | Some v \<Rightarrow> v)) \<and>
   loaded_settings (new_SettingsManager env Map.empty)
     = Some (defaults\<lparr>settings_stats := today_stats (today env)\<rparr>)"
proof -
  have a: "loaded_settings (new_SettingsManager env storage)
        = Some (defaults\<lparr>settings_stats := today_stats (today env)\<rparr>)"
    if "storage STATS = Some v" "JSON_parse env v = None" for v
    using that by (simp add: store_defs defaults_def today_stats_def Let_def)
  have b: "loaded_settings (new_SettingsManager env storage)
        = Some \<lparr> settings_focusDuration =
                   (case storage FOCUS_DURATION of None \<Rightarrow> Num 25 | Some v \<Rightarrow> parseInt v),
                 settings_breakDuration =
                   (case storage BREAK_DURATION of None \<Rightarrow> Num 5 | Some v \<Rightarrow> parseInt v),
                 settings_soundEnabled =
                   (case storage SOUND_ENABLED of None \<Rightarrow> True | Some v \<Rightarrow> v = ''true''),
                 settings_theme = (case storage THEME of None \<Rightarrow> ''dark'' | Some v \<Rightarrow> v),
                 settings_stats = today_stats (today env) \<rparr>"
    if "storage STATS = None"
    using that by (simp add: store_defs defaults_def today_stats_def Let_def split: option.splits)
  have c: "settings_focusDuration s =
        (case storage FOCUS_DURATION of None \<Rightarrow> Num 25 | Some v \<Rightarrow> parseInt v) \<and>
      settings_breakDuration s =
        (case storage BREAK_DURATION of None \<Rightarrow> Num 5 | Some v \<Rightarrow> parseInt v) \<and>
      settings_soundEnabled s =
        (case storage SOUND_ENABLED of None \<Rightarrow> True | Some v \<Rightarrow> v = ''true'') \<and>
      settings_theme s = (case storage THEME of None \<Rightarrow> ''dark'' | Some v \<Rightarrow> v)"
    if "storage STATS = Some v" "JSON_parse env v = Some j"
       "loaded_settings (new_SettingsManager env storage) = Some s" for v j s
  proof -
    let ?sm0 = "loadSettings env \<lparr> settings = defaults, onSettingsChange = False,
                  localStorage = storage, received = [], reported = [] \<rparr>"
    from that(3) obtain sm where sm: "checkStatsReset env ?sm0 = Inr sm" "s = settings sm"
      by (auto simp: loaded_settings_def new_SettingsManager_def split: sum.splits)
    have "settings_focusDuration (settings ?sm0) =
            (case storage FOCUS_DURATION of None \<Rightarrow> Num 25 | Some v \<Rightarrow> parseInt v) \<and>
          settings_breakDuration (settings ?sm0) =
            (case storage BREAK_DURATION of None \<Rightarrow> Num 5 | Some v \<Rightarrow> parseInt v) \<and>
          settings_soundEnabled (settings ?sm0) =
            (case storage SOUND_ENABLED of None \<Rightarrow> True | Some v \<Rightarrow> v = ''true'') \<and>
          settings_theme (settings ?sm0) =
            (case storage THEME of None \<Rightarrow> ''dark'' | Some v \<Rightarrow> v)"
      using that(1,2) by (simp add: loadSettings_def defaults_def Let_def split: option.splits)
    with checkStatsReset_fields [OF sm(1)] sm(2) show ?thesis
      by (simp add: same_prefs_def)
  qed
  have d: "loaded_settings (new_SettingsManager env Map.empty)
     = Some (defaults\<lparr>settings_stats := today_stats (today env)\<rparr>)"
    by (simp add: store_defs defaults_def today_stats_def Let_def)
  show ?thesis using a b c d by blast
qed

theorem load_falls_back_witness:
  \<open>JSON_parse example_host ''{oops'' = None \<and>
   loaded_settings (new_SettingsManager example_host
       [FOCUS_DURATION \<mapsto> ''50'', THEME \<mapsto> ''light'', STATS \<mapsto> ''{oops''])
     = Some \<lparr> settings_focusDuration = Num 25, settings_breakDuration = Num 5,
              settings_soundEnabled = True, settings_theme = ''dark'',
              settings_stats = today_stats ''Mon Nov 02 2026'' \<rparr> \<and>
   loaded_settings (new_SettingsManager example_host [FOCUS_DURATION \<mapsto> ''50''])
     = Some \<lparr> settings_focusDuration = Num 50, settings_breakDuration = Num 5,
              settings_soundEnabled = True, settings_theme = ''dark'',
              settings_stats = today_stats ''Mon Nov 02 2026'' \<rparr> \<and>
   loaded_settings (new_SettingsManager example_host
       [THEME \<mapsto> ''light'',
        STATS \<mapsto> ''{"sessionsToday":3,"totalFocusTime":75,"lastResetDate":"Sun Nov 01 2026"}''])
     = Some \<lparr> settings_focusDuration = Num 25, settings_breakDuration = Num 5,
              settings_soundEnabled = True, settings_theme = ''light'',
              settings_stats = today_stats ''Mon Nov 02 2026'' \<rparr> \<and>
   loaded_settings (new_SettingsManager example_host Map.empty)
     = Some \<lparr> settings_focusDuration = Num 25, settings_breakDuration = Num 5,
              settings_soundEnabled = True, settings_theme = ''dark'',
              settings_stats = today_stats ''Mon Nov 02 2026'' \<rparr>\<close>
proof -
  let ?a = "[FOCUS_DURATION \<mapsto> ''50'', THEME \<mapsto> ''light'', STATS \<mapsto> ''{oops'']"
  let ?b = "[FOCUS_DURATION \<mapsto> ''50'']"
  let ?v = \<open>''{"sessionsToday":3,"totalFocusTime":75,"lastResetDate":"Sun Nov 01 2026"}''\<close>
  let ?c = "[THEME \<mapsto> ''light'', STATS \<mapsto> ?v]"
  let ?j = "JObject [(''sessionsToday'', JNumber (Num 3)), (''totalFocusTime'', JNumber (Num 75)),
              (''lastResetDate'', JString ''Sun Nov 01 2026'')]"
  let ?s = "\<lparr> settings_focusDuration = Num 25, settings_breakDuration = Num 5,
              settings_soundEnabled = True, settings_theme = ''light'',
              settings_stats = today_stats ''Mon Nov 02 2026'' \<rparr>"
  have ha: "\<exists>v. ?a STATS = Some v \<and> JSON_parse example_host v = None"
    by (simp add: example_host_simps)
  have hb: "?b STATS = None" by simp
  have hc: "?c STATS = Some ?v \<and> JSON_parse example_host ?v = Some ?j \<and>
            loaded_settings (new_SettingsManager example_host ?c) = Some ?s"
    by (simp add: store_defs defaults_def example_host_simps today_stats_def Let_def)
  have p: "parseInt ''50'' = Num 50" by (simp add: parseInt_defs Let_def)
  note A = load_falls_back [of ?a example_host, THEN conjunct1, rule_format, OF ha]
  note B = load_falls_back [of ?b example_host, THEN conjunct2, THEN conjunct1, rule_format, OF hb]
  note C = load_falls_back [of ?c example_host, THEN conjunct2, THEN conjunct2, THEN conjunct1,
             rule_format, OF hc]
  note D = load_falls_back [of ?b example_host, THEN conjunct2, THEN conjunct2, THEN conjunct2]
  from A B C D hc show ?thesis
    by (simp add: example_host_simps defaults_def p)
qed

subsection \<open>The range checks of the setters\<close>

text \<open>
  On every number that can be compared the range checks decide as section 4.2 of the
  specification says: outside the range the setter returns false and changes nothing
  but the console, inside it the setter stores the value, saves and notifies.
\<close>

lemma not_between:
  "m \<noteq> NaN \<Longrightarrow>
     (\<not> (le_num (Num a) m \<and> le_num m (Num b))) = (lt_num m (Num a) \<or> gt_num m (Num b))"
  by (cases m) (auto simp: gt_num_def)

lemma store_setFocusDuration_ordered:
  "minutes \<noteq> NaN \<Longrightarrow>
   store_setFocusDuration env minutes sm =
     (if le_num (Num 1) minutes \<and> le_num minutes (Num 120)
      then (True, notifyChange ''focusDuration'' (JNumber minutes)
                    (JNumber (settings_focusDuration (settings sm)))
                    (saveSettings env
                       (sm\<lparr>settings := (settings sm)\<lparr>settings_focusDuration := minutes\<rparr>\<rparr>)))
      else (False, sm\<lparr>reported := reported sm @ [ErrorInvalidFocus minutes]\<rparr>))"
  using not_between [of minutes 1 120]
  by (simp add: store_setFocusDuration_def Let_def)

lemma store_setBreakDuration_ordered:
  "minutes \<noteq> NaN \<Longrightarrow>
   store_setBreakDuration env minutes sm =
     (if le_num (Num 1) minutes \<and> le_num minutes (Num 30)
      then (True, notifyChange ''breakDuration'' (JNumber minutes)
                    (JNumber (settings_breakDuration (settings sm)))
                    (saveSettings env
                       (sm\<lparr>settings := (settings sm)\<lparr>settings_breakDuration := minutes\<rparr>\<rparr>)))
      else (False, sm\<lparr>reported := reported sm @ [ErrorInvalidBreak minutes]\<rparr>))"
  using not_between [of minutes 1 30]
  by (simp add: store_setBreakDuration_def Let_def)

text \<open>
  Claim C5 at NaN, which is outside \<open>[1,120]\<close> and outside \<open>[1,30]\<close>: both
  comparisons of the range check are false, so both setters return true, store NaN,
  save it and notify the change.
\<close>

theorem store_setters_accept_NaN:
  "store_setFocusDuration env NaN sm =
     (True, notifyChange ''focusDuration'' (JNumber NaN)
              (JNumber (settings_focusDuration (settings sm)))
              (saveSettings env
                 (sm\<lparr>settings := (settings sm)\<lparr>settings_focusDuration := NaN\<rparr>\<rparr>))) \<and>
   settings_focusDuration (settings (snd (store_setFocusDuration env NaN sm))) = NaN \<and>
   localStorage (snd (store_setFocusDuration env NaN sm)) FOCUS_DURATION
     = Some (String_of env NaN) \<and>
   store_setBreakDuration env NaN sm =
     (True, notifyChange ''breakDuration'' (JNumber NaN)
              (JNumber (settings_breakDuration (settings sm)))
              (saveSettings env
                 (sm\<lparr>settings := (settings sm)\<lparr>settings_breakDuration := NaN\<rparr>\<rparr>))) \<and>
   settings_breakDuration (settings (snd (store_setBreakDuration env NaN sm))) = NaN \<and>
   localStorage (snd (store_setBreakDuration env NaN sm)) BREAK_DURATION
     = Some (String_of env NaN)"
  by (simp add: store_setFocusDuration_def store_setBreakDuration_def gt_num_def Let_def
        notifyChange_def saveSettings_def)

subsection \<open>The daily rollover\<close>










end
